theory Spec2Isabelle
  imports Complex_Main "HOL-Library.Sublist"
begin

section \<open>The \<open>resync\<close> command of cmd/replicate-reset.go\<close>

text \<open>
  The file is one command of a command-line client: it checks its arguments, reads an
  optional age filter, calls one remote operation and prints the answer. The command
  line is a record, every call that leaves the file (the duration library, the client,
  the JSON encoder, the console) is a field of an environment record, and every way the
  process can stop early is a value of \<open>exit\<close>. A run returns the calls it made, in
  order, and either the exit or the text it printed.
\<close>

subsection \<open>Data\<close>

text \<open>A Go \<open>error\<close> value, by its message; \<open>nil\<close> is \<open>None\<close> of \<open>error option\<close>.\<close>

type_synonym error = string

text \<open>A non-nil \<open>*probe.Error\<close> with its cause; \<open>nil\<close> is \<open>None\<close>.\<close>

datatype probe_Error = ProbeError error

text \<open>
  \<open>replication.ResyncTargetsInfo\<close> of the client library: a list of targets. The file
  reads the length of the list and the \<open>ResetID\<close> of a target, nothing else.
\<close>

record ResyncTarget =
  ResetID :: string

record ResyncTargetsInfo =
  Targets :: "ResyncTarget list"

record replicateResetMessage =
  Op :: string
  URL :: string
  ResyncTargetsInfo :: ResyncTargetsInfo
  Status :: string
  TargetArn :: string

text \<open>
  \<open>cli.Context\<close>: the positional arguments, and the flags given on the command line
  with their values. A flag that was not given is not in the map.
\<close>

record cli_Context =
  Args :: "string list"
  flagSet :: "string \<rightharpoonup> string"

text \<open>
  How the process stops early: \<open>cli.ShowCommandHelpAndExit\<close> with the command name and
  the exit code, \<open>fatal\<close> with the error and the message, or a run-time panic.
\<close>

datatype exit =
    ShowCommandHelpAndExit string int
  | Fatal probe_Error string
  | Panic string

text \<open>The calls that leave the file, as a run records them.\<close>

datatype call =
    CallNewClient string
  | CallParseDuration string
  | CallResetReplication int string

record run =
  trace :: "call list"
  outcome :: "exit + string"

text \<open>
  The collaborators. \<open>ParseDuration\<close> and \<open>Days\<close> are the duration library: a
  duration is a count of nanoseconds, the parser returns a duration and an error, and
  \<open>Days\<close> returns a finite float64, here the rational number it denotes.
  \<open>newClient\<close> and \<open>ResetReplication\<close> are the storage client (the client is named by
  the URL it was made for), \<open>MarshalIndent\<close> is the JSON encoder, \<open>Colorize\<close> the
  console and \<open>globalJSON\<close> the output mode.
\<close>

record env =
  ParseDuration :: "string \<Rightarrow> int \<times> error option"
  Days :: "int \<Rightarrow> rat"
  newClient :: "string \<Rightarrow> probe_Error option"
  ResetReplication :: "string \<Rightarrow> int \<Rightarrow> string \<Rightarrow> ResyncTargetsInfo \<times> probe_Error option"
  MarshalIndent :: "replicateResetMessage \<Rightarrow> string \<Rightarrow> string \<Rightarrow> string \<times> error option"
  Colorize :: "string \<Rightarrow> string \<Rightarrow> string"
  globalJSON :: bool

subsection \<open>Library calls with a fixed meaning\<close>

text \<open>\<open>ctx.String(name)\<close>: the value of a string flag, the empty string when not given.\<close>

definition Context_String :: "cli_Context \<Rightarrow> string \<Rightarrow> string" where
  "Context_String ctx name = (case flagSet ctx name of None \<Rightarrow> '''' | Some v \<Rightarrow> v)"

text \<open>\<open>ctx.IsSet(name)\<close>: whether the flag was given.\<close>

definition Context_IsSet :: "cli_Context \<Rightarrow> string \<Rightarrow> bool" where
  "Context_IsSet ctx name = (flagSet ctx name \<noteq> None)"

text \<open>\<open>args.Get(n)\<close>: the n-th argument, the empty string when there is none.\<close>

definition Get :: "string list \<Rightarrow> nat \<Rightarrow> string" where
  "Get a n = (if n < length a then a ! n else '''')"

text \<open>
  \<open>strings.ContainsAny(s, chars)\<close>. The file calls it with ASCII \<open>chars\<close>, where a
  code point is one byte.
\<close>

definition ContainsAny :: "string \<Rightarrow> string \<Rightarrow> bool" where
  "ContainsAny s chars = list_ex (\<lambda>c. c \<in> set chars) s"

text \<open>
  The conversion \<open>time.Duration(f)\<close> of a float64 to an integer: the fraction is
  discarded. The day count of a 64-bit count of nanoseconds is below 106752 in size, far
  inside the integers of a \<open>time.Duration\<close>, so no width is modelled.
\<close>

definition time_Duration :: "rat \<Rightarrow> int" where
  "time_Duration f = (if 0 \<le> f then \<lfloor>f\<rfloor> else \<lceil>f\<rceil>)"

text \<open>The units of a duration, in nanoseconds.\<close>

definition Hour :: int where
  "Hour = 3600000000000"

definition Day :: int where
  "Day = 24 * Hour"

definition Week :: int where
  "Week = 7 * Day"

definition Year :: int where
  "Year = 365 * Day"

text \<open>Go's \<open>/\<close> and \<open>%\<close> on integers: the quotient is rounded to zero.\<close>

definition quo :: "int \<Rightarrow> int \<Rightarrow> int" where
  "quo a b = sgn a * sgn b * (\<bar>a\<bar> div \<bar>b\<bar>)"

definition rem :: "int \<Rightarrow> int \<Rightarrow> int" where
  "rem a b = a - b * quo a b"

text \<open>
  \<open>Duration.Days\<close> as the duration library (maze.io/x/duration, outside the
  repository) computes it: the whole hours of the duration, and the rest of the hour as
  a fraction of a day,
  \<^verbatim>\<open>hour := d / Hour; nsec := d % Hour; return float64(hour) + float64(nsec)*(1e-9/60/60/24)\<close>.
  The arithmetic is exact here; on a whole number of hours the float64 arithmetic is
  exact too. The command is run with any day count (the field \<open>Days\<close> above); this is
  the one it meets.
\<close>

definition Duration_Days :: "int \<Rightarrow> rat" where
  "Duration_Days d =
     (let hour = quo d Hour; nsec = rem d Hour
      in of_int hour + of_int nsec * (1 / 10 ^ 9 / 60 / 60 / 24))"

text \<open>Indexing a Go slice: a panic out of range.\<close>

definition index :: "'a list \<Rightarrow> nat \<Rightarrow> exit + 'a" where
  "index xs i = (if i < length xs then Inr (xs ! i) else Inl (Panic ''index out of range''))"

subsection \<open>Helpers of the repository that are not in the file\<close>

text \<open>
  Modelled from the spec: \<open>probe.NewError\<close> (pkg/probe of this repository; the file
  has its calls only). It wraps an error for tracing. The spec makes an encoding
  failure fatal and an encoding success the output (4.4); line 93 hands
  \<open>probe.NewError(e)\<close> to \<open>fatalIf\<close> after every encoding, so the wrapper of no error
  is no error.
\<close>

definition NewError :: "error option \<Rightarrow> probe_Error option" where
  "NewError e = (case e of None \<Rightarrow> None | Some x \<Rightarrow> Some (ProbeError x))"

text \<open>
  Modelled from the spec: \<open>(*probe.Error).Trace\<close> (pkg/probe of this repository; the
  file has its calls only). It adds a trace point for diagnostics (7) and keeps the
  error, and no error stays no error: line 136 calls it on the result of every remote
  call. The trace points are not modelled.
\<close>

definition Trace :: "probe_Error option \<Rightarrow> string list \<Rightarrow> probe_Error option" where
  "Trace err fs = err"

text \<open>
  Modelled from the spec: \<open>errDummy\<close> (cmd/ of this repository; the file has its call
  only), the error that \<open>fatal\<close> is given where the message says it all (4.1).
\<close>

definition errDummy :: probe_Error where
  "errDummy = ProbeError ''''"

text \<open>
  Modelled from the spec: \<open>fatalIf\<close> (cmd/ of this repository; the file has its calls
  only). An error that a call returned ends the command with the message (4.3, 4.4, 7);
  with no error the command goes on: lines 93, 118 and 136 call it after every encoding,
  every client construction and every remote call, and the command prints its result
  and ends with success (6). \<open>Some\<close> is the exit, \<open>None\<close> is going on.
\<close>

definition fatalIf :: "probe_Error option \<Rightarrow> string \<Rightarrow> exit option" where
  "fatalIf err msg = (case err of None \<Rightarrow> None | Some e \<Rightarrow> Some (Fatal e msg))"

subsection \<open>The file\<close>

text \<open>\<open>checkReplicateResetSyntax\<close>, lines 73 to 80: \<open>Some\<close> is the exit it takes.\<close>

definition checkReplicateResetSyntax :: "cli_Context \<Rightarrow> exit option" where
  "checkReplicateResetSyntax ctx =
     (if length (Args ctx) \<noteq> 1 then Some (ShowCommandHelpAndExit ''reset'' 1)
      else if Context_String ctx ''remote-bucket'' = ''''
        then Some (Fatal errDummy ''--remote-bucket flag needs to be specified.'')
      else None)"

text \<open>\<open>replicateResetMessage.JSON\<close>, lines 90 to 95. The receiver is a copy.\<close>

definition replicateResetMessage_JSON :: "env \<Rightarrow> replicateResetMessage \<Rightarrow> exit + string" where
  "replicateResetMessage_JSON env r0 =
     (let r = r0\<lparr>Status := ''success''\<rparr>;
          (jsonMessageBytes, e) = MarshalIndent env r '''' '' ''
      in case fatalIf (NewError e) ''Unable to marshal into JSON.'' of
           Some x \<Rightarrow> Inl x
         | None \<Rightarrow> Inr jsonMessageBytes)"

text \<open>\<open>replicateResetMessage.String\<close>, lines 97 to 103.\<close>

definition replicateResetMessage_String :: "env \<Rightarrow> replicateResetMessage \<Rightarrow> exit + string" where
  "replicateResetMessage_String env r =
     (if length (Targets (ResyncTargetsInfo r)) = 1 then
        (case index (Targets (ResyncTargetsInfo r)) 0 of
           Inl p \<Rightarrow> Inl p
         | Inr t \<Rightarrow>
             Inr (Colorize env ''replicateResetMessage''
                    (''Replication reset started for '' @ URL r @ '' with ID '' @ ResetID t)))
      else Inr (Colorize env ''replicateResetMessage''
                  (''Replication reset started for '' @ URL r)))"

text \<open>
  Modelled from the spec: \<open>printMsg\<close> (cmd/ of this repository; the file has its call
  only): the result is rendered as indented JSON in the machine-readable mode and as
  one status line otherwise (4.4), and printed.
\<close>

definition printMsg :: "env \<Rightarrow> replicateResetMessage \<Rightarrow> exit + string" where
  "printMsg env msg =
     (if globalJSON env then replicateResetMessage_JSON env msg
      else replicateResetMessage_String env msg)"

text \<open>
  Lines 119 to 133 of \<open>mainReplicateReset\<close>: the age filter. It returns the calls it
  made and either the exit or the value of \<open>olderThan\<close>.
\<close>

definition olderThanOf :: "env \<Rightarrow> cli_Context \<Rightarrow> call list \<times> (exit + int)" where
  "olderThanOf env cliCtx =
     (if Context_IsSet cliCtx ''older-than'' then
        (let olderThanStr = Context_String cliCtx ''older-than'' in
         if olderThanStr \<noteq> '''' then
           (let (days, e) = ParseDuration env olderThanStr;
                made = [CallParseDuration olderThanStr]
            in case (if e \<noteq> None \<or> \<not> ContainsAny olderThanStr ''dwy''
                     then fatalIf (NewError e)
                            (''Unable to parse older-than='' @ [CHR 0x60] @ olderThanStr
                               @ [CHR 0x60] @ ''.'')
                     else None) of
                 Some x \<Rightarrow> (made, Inl x)
               | None \<Rightarrow>
                   (case (if days = 0
                          then fatalIf (NewError e) ''older-than cannot be set to zero''
                          else None) of
                      Some x \<Rightarrow> (made, Inl x)
                    | None \<Rightarrow> (made, Inr (time_Duration (Days env days)))))
         else ([], Inr 0))
      else ([], Inr 0))"

text \<open>
  \<open>mainReplicateReset\<close>, lines 105 to 143. The cancellable context and the colour of
  the status line (lines 106 to 109) have no part in the calls or in the outcome.
\<close>

definition mainReplicateReset :: "env \<Rightarrow> cli_Context \<Rightarrow> run" where
  "mainReplicateReset env cliCtx =
     (case checkReplicateResetSyntax cliCtx of
        Some x \<Rightarrow> \<lparr>trace = [], outcome = Inl x\<rparr>
      | None \<Rightarrow>
          (let args = Args cliCtx;
               aliasedURL = Get args 0;
               t1 = [CallNewClient aliasedURL]
           in case fatalIf (newClient env aliasedURL) ''Unable to initialize connection.'' of
                Some x \<Rightarrow> \<lparr>trace = t1, outcome = Inl x\<rparr>
              | None \<Rightarrow>
                  (case olderThanOf env cliCtx of
                     (t2, Inl x) \<Rightarrow> \<lparr>trace = t1 @ t2, outcome = Inl x\<rparr>
                   | (t2, Inr olderThan) \<Rightarrow>
                       (let arn = Context_String cliCtx ''remote-bucket'';
                            (rinfo, err) = ResetReplication env aliasedURL olderThan arn;
                            t3 = t1 @ t2 @ [CallResetReplication olderThan arn]
                        in case fatalIf (Trace err args) ''Unable to reset replication'' of
                             Some x \<Rightarrow> \<lparr>trace = t3, outcome = Inl x\<rparr>
                           | None \<Rightarrow>
                               \<lparr>trace = t3,
                                outcome = printMsg env
                                  \<lparr>Op = ''status'', URL = aliasedURL,
                                   ResyncTargetsInfo = rinfo, Status = '''',
                                   TargetArn = ''''\<rparr>\<rparr>))))"

subsection \<open>A small environment to run the command in\<close>

text \<open>
  A parser for a decimal number with one unit letter. It stands for the parser of the
  duration library on inputs of that shape.
\<close>

definition isDigit :: "char \<Rightarrow> bool" where
  "isDigit c = (c \<in> set ''0123456789'')"

definition digitsValue :: "string \<Rightarrow> int" where
  "digitsValue ds = foldl (\<lambda>n c. 10 * n + (int (of_char c) - 48)) 0 ds"

definition unitOf :: "string \<Rightarrow> int option" where
  "unitOf u =
     (if u = ''h'' then Some Hour
      else if u = ''d'' then Some Day
      else if u = ''w'' then Some Week
      else if u = ''y'' then Some Year
      else None)"

definition demoParseDuration :: "string \<Rightarrow> int \<times> error option" where
  "demoParseDuration s =
     (let ds = takeWhile isDigit s; u = dropWhile isDigit s
      in if ds = [] then (0, Some (''invalid duration '' @ s))
         else case unitOf u of
                None \<Rightarrow> (0, Some (''unknown unit '' @ u @ '' in duration '' @ s))
              | Some k \<Rightarrow> (digitsValue ds * k, None))"

text \<open>A remote end that knows every target but \<open>bad\<close> and answers with one reset.\<close>

definition demoResetReplication ::
    "string \<Rightarrow> int \<Rightarrow> string \<Rightarrow> ResyncTargetsInfo \<times> probe_Error option" where
  "demoResetReplication url olderThan arn =
     (if arn = ''bad'' then (\<lparr>Targets = []\<rparr>, Some (ProbeError ''no such target''))
      else (\<lparr>Targets = [\<lparr>ResetID = ''abc123''\<rparr>]\<rparr>, None))"

text \<open>An encoder that writes the five fields, indented by one space.\<close>

definition quote :: "string \<Rightarrow> string" where
  "quote s = [CHR 0x22] @ s @ [CHR 0x22]"

definition demoTarget :: "ResyncTarget \<Rightarrow> string" where
  "demoTarget t = ''{'' @ quote ''id'' @ '': '' @ quote (ResetID t) @ ''}''"

fun commaSep :: "string list \<Rightarrow> string" where
  "commaSep [] = ''''"
| "commaSep [x] = x"
| "commaSep (x # y # ys) = x @ '','' @ commaSep (y # ys)"

definition demoMarshalIndent ::
    "replicateResetMessage \<Rightarrow> string \<Rightarrow> string \<Rightarrow> string \<times> error option" where
  "demoMarshalIndent r pre ind =
     (let line = (\<lambda>k v. [CHR 0x0A] @ pre @ ind @ quote k @ '': '' @ v)
      in (pre @ ''{''
            @ line ''op'' (quote (Op r)) @ '',''
            @ line ''url'' (quote (URL r)) @ '',''
            @ line ''resyncInfo''
                (''{'' @ quote ''target'' @ '': [''
                   @ commaSep (map demoTarget (Targets (ResyncTargetsInfo r))) @ '']}'') @ '',''
            @ line ''status'' (quote (Status r)) @ '',''
            @ line ''targetArn'' (quote (TargetArn r))
            @ [CHR 0x0A] @ pre @ ''}'', None))"

text \<open>A console that writes green.\<close>

definition demoColorize :: "string \<Rightarrow> string \<Rightarrow> string" where
  "demoColorize tag s = [CHR 0x1B] @ ''[32m'' @ s @ [CHR 0x1B] @ ''[0m''"

definition demoEnv :: env where
  "demoEnv =
     \<lparr>ParseDuration = demoParseDuration, Days = Duration_Days, newClient = (\<lambda>url. None),
      ResetReplication = demoResetReplication, MarshalIndent = demoMarshalIndent,
      Colorize = demoColorize, globalJSON = False\<rparr>"

definition demoContext :: "(string \<times> string) list \<Rightarrow> cli_Context" where
  "demoContext fs = \<lparr>Args = [''myminio/mybucket''], flagSet = map_of fs\<rparr>"

text \<open>A message about the bucket above, with one target per identifier.\<close>

definition demoMessage :: "string list \<Rightarrow> replicateResetMessage" where
  "demoMessage ids =
     \<lparr>Op = ''status'', URL = ''myminio/mybucket'',
      ResyncTargetsInfo = \<lparr>Targets = map (\<lambda>i. \<lparr>ResetID = i\<rparr>) ids\<rparr>,
      Status = '''', TargetArn = ''''\<rparr>"

text \<open>The document the encoder above writes for the answer of the remote end above.\<close>

definition demoJSON :: string where
  "demoJSON =
     ''{'' @ [CHR 0x0A]
     @ '' '' @ quote ''op'' @ '': '' @ quote ''status'' @ '','' @ [CHR 0x0A]
     @ '' '' @ quote ''url'' @ '': '' @ quote ''myminio/mybucket'' @ '','' @ [CHR 0x0A]
     @ '' '' @ quote ''resyncInfo'' @ '': {'' @ quote ''target'' @ '': [{''
         @ quote ''id'' @ '': '' @ quote ''abc123'' @ ''}]},'' @ [CHR 0x0A]
     @ '' '' @ quote ''status'' @ '': '' @ quote ''success'' @ '','' @ [CHR 0x0A]
     @ '' '' @ quote ''targetArn'' @ '': '' @ quote '''' @ [CHR 0x0A]
     @ ''}''"

section \<open>Steps of a run\<close>

subsection \<open>The argument check\<close>

lemma check_wrong_count:
  "length (Args c) \<noteq> 1 \<Longrightarrow>
     checkReplicateResetSyntax c = Some (ShowCommandHelpAndExit ''reset'' 1)"
  by (simp add: checkReplicateResetSyntax_def)

lemma check_missing_bucket:
  "length (Args c) = 1 \<Longrightarrow> Context_String c ''remote-bucket'' = '''' \<Longrightarrow>
     checkReplicateResetSyntax c =
       Some (Fatal errDummy ''--remote-bucket flag needs to be specified.'')"
  by (simp add: checkReplicateResetSyntax_def)

lemma check_passes:
  "length (Args c) = 1 \<Longrightarrow> Context_String c ''remote-bucket'' \<noteq> '''' \<Longrightarrow>
     checkReplicateResetSyntax c = None"
  by (simp add: checkReplicateResetSyntax_def)

subsection \<open>The age filter\<close>

lemma olderThanOf_absent:
  "flagSet c ''older-than'' = None \<Longrightarrow> olderThanOf env c = ([], Inr 0)"
  by (simp add: olderThanOf_def Context_IsSet_def)

lemma olderThanOf_empty:
  "flagSet c ''older-than'' = Some '''' \<Longrightarrow> olderThanOf env c = ([], Inr 0)"
  by (simp add: olderThanOf_def Context_IsSet_def Context_String_def)

text \<open>
  Once the parser returns no error, neither \<open>fatalIf\<close> of lines 126 and 129 can stop the
  command: both are handed the wrapper of that same \<open>e\<close>, which is no error.
\<close>

lemma olderThanOf_parsed:
  assumes "flagSet c ''older-than'' = Some s" and "s \<noteq> ''''"
    and "ParseDuration env s = (d, None)"
  shows "olderThanOf env c = ([CallParseDuration s], Inr (time_Duration (Days env d)))"
  using assms
  by (simp add: olderThanOf_def Context_IsSet_def Context_String_def fatalIf_def NewError_def)

lemma olderThanOf_failed:
  assumes "flagSet c ''older-than'' = Some s" and "s \<noteq> ''''"
    and "ParseDuration env s = (d, Some e)"
  shows "olderThanOf env c =
           ([CallParseDuration s],
            Inl (Fatal (ProbeError e)
                   (''Unable to parse older-than='' @ [CHR 0x60] @ s @ [CHR 0x60] @ ''.'')))"
  using assms
  by (simp add: olderThanOf_def Context_IsSet_def Context_String_def fatalIf_def NewError_def)

text \<open>
  No run of the age filter ends with the error of the zero check: where the check is
  reached, the parser has returned no error, and that is what the check passes on.
\<close>

lemma olderThanOf_never_zero_error:
  "snd (olderThanOf env c) \<noteq> Inl (Fatal e ''older-than cannot be set to zero'')"
  by (auto simp: olderThanOf_def fatalIf_def NewError_def Let_def
        split: prod.splits option.splits if_splits)

text \<open>
  The day count of the library, with its fraction discarded, is the whole hours of the
  duration.
\<close>

lemma quo_nonneg: "0 \<le> d \<Longrightarrow> quo d Hour = d div Hour"
  by (cases "d = 0") (simp_all add: quo_def Hour_def)

lemma quo_minus: "quo (- a) b = - quo a b"
  by (simp add: quo_def)

lemma rem_minus: "rem (- a) b = - rem a b"
  by (simp add: rem_def quo_minus)

lemma Duration_Days_minus: "Duration_Days (- d) = - Duration_Days d"
  by (simp add: Duration_Days_def quo_minus rem_minus)

lemma time_Duration_minus: "time_Duration (- f) = - time_Duration f"
  by (auto simp: time_Duration_def ceiling_def)

lemma Duration_Days_nonneg:
  assumes "0 \<le> d"
  shows "Duration_Days d = of_int (d div Hour) + of_int (d mod Hour) / of_int Day"
proof -
  have "quo d Hour = d div Hour"
    using assms by (rule quo_nonneg)
  moreover from this have "rem d Hour = d mod Hour"
    by (simp add: rem_def minus_mult_div_eq_mod)
  ultimately show ?thesis
    by (simp add: Duration_Days_def Day_def Hour_def)
qed

lemma whole_hours_nonneg:
  assumes "0 \<le> d"
  shows "time_Duration (Duration_Days d) = d div Hour"
proof -
  let ?f = "of_int (d mod Hour) / (of_int Day :: rat)"
  have "0 \<le> d mod Hour" and "d mod Hour < Day"
    by (simp_all add: Hour_def Day_def)
  then have f: "0 \<le> ?f" "?f < 1"
    by (simp_all add: Day_def Hour_def)
  have h: "0 \<le> d div Hour"
    using assms by (simp add: Hour_def pos_imp_zdiv_nonneg_iff)
  have "\<lfloor>of_int (d div Hour) + ?f\<rfloor> = d div Hour"
    using f by (simp add: floor_unique)
  moreover have "(0::rat) \<le> of_int (d div Hour) + ?f"
    using f h by simp
  ultimately show ?thesis
    using assms by (simp add: Duration_Days_nonneg time_Duration_def)
qed

lemma whole_hours: "time_Duration (Duration_Days d) = quo d Hour"
proof (cases "0 \<le> d")
  case True
  then show ?thesis
    by (simp add: whole_hours_nonneg quo_nonneg)
next
  case False
  then have "0 \<le> - d" by simp
  then have "time_Duration (Duration_Days (- d)) = quo (- d) Hour"
    by (simp add: whole_hours_nonneg quo_nonneg)
  then show ?thesis
    by (simp add: Duration_Days_minus time_Duration_minus quo_minus)
qed

lemma Day_positive: "0 < Day"
  by (simp add: Day_def Hour_def)

subsection \<open>The run\<close>

lemma main_stopped_by_check:
  "checkReplicateResetSyntax c = Some x \<Longrightarrow>
     mainReplicateReset env c = \<lparr>trace = [], outcome = Inl x\<rparr>"
  by (simp add: mainReplicateReset_def)

lemma main_stopped_by_filter:
  assumes "checkReplicateResetSyntax c = None"
    and "newClient env (Get (Args c) 0) = None"
    and "olderThanOf env c = (made, Inl x)"
  shows "mainReplicateReset env c =
           \<lparr>trace = CallNewClient (Get (Args c) 0) # made, outcome = Inl x\<rparr>"
  using assms
  by (simp add: mainReplicateReset_def fatalIf_def Let_def)

lemma main_trace:
  assumes "checkReplicateResetSyntax c = None"
    and "newClient env (Get (Args c) 0) = None"
    and "olderThanOf env c = (made, Inr d)"
  shows "trace (mainReplicateReset env c) =
           CallNewClient (Get (Args c) 0) # made @
             [CallResetReplication d (Context_String c ''remote-bucket'')]"
  using assms
  by (simp add: mainReplicateReset_def fatalIf_def Let_def split: prod.splits option.splits)

lemma main_outcome:
  assumes "checkReplicateResetSyntax c = None"
    and "newClient env (Get (Args c) 0) = None"
    and "olderThanOf env c = (made, Inr d)"
    and "ResetReplication env (Get (Args c) 0) d (Context_String c ''remote-bucket'') =
           (rinfo, None)"
  shows "outcome (mainReplicateReset env c) =
           printMsg env \<lparr>Op = ''status'', URL = Get (Args c) 0, ResyncTargetsInfo = rinfo,
             Status = '''', TargetArn = ''''\<rparr>"
  using assms
  by (simp add: mainReplicateReset_def fatalIf_def Trace_def Let_def)

text \<open>
  The run reads the command line through its arguments, the target identifier and the
  age filter only.
\<close>

lemma main_by_parts:
  assumes "Args c' = Args c"
    and "Context_String c' ''remote-bucket'' = Context_String c ''remote-bucket''"
    and "olderThanOf env c' = olderThanOf env c"
  shows "mainReplicateReset env c' = mainReplicateReset env c"
  unfolding mainReplicateReset_def checkReplicateResetSyntax_def assms
  by (rule refl)

text \<open>A parsing failure ends the run before the remote call, with the parser's error.\<close>

lemma unparsable_age_filter_is_fatal:
  assumes "length (Args c) = 1" and "Context_String c ''remote-bucket'' \<noteq> ''''"
    and "newClient env (Get (Args c) 0) = None"
    and "flagSet c ''older-than'' = Some s" and "s \<noteq> ''''"
    and "ParseDuration env s = (d, Some e)"
  shows "mainReplicateReset env c =
           \<lparr>trace = [CallNewClient (Get (Args c) 0), CallParseDuration s],
            outcome = Inl (Fatal (ProbeError e)
              (''Unable to parse older-than='' @ [CHR 0x60] @ s @ [CHR 0x60] @ ''.''))\<rparr>"
proof -
  note olderThanOf_failed [OF assms(4-6)]
  with assms(1-3) show ?thesis
    by (simp add: main_stopped_by_filter check_passes)
qed

subsection \<open>The two renderings\<close>

lemma String_single:
  "Targets (ResyncTargetsInfo r) = [t] \<Longrightarrow>
     replicateResetMessage_String env r =
       Inr (Colorize env ''replicateResetMessage''
              (''Replication reset started for '' @ URL r @ '' with ID '' @ ResetID t))"
  by (simp add: replicateResetMessage_String_def index_def)

lemma String_generic:
  "length (Targets (ResyncTargetsInfo r)) \<noteq> 1 \<Longrightarrow>
     replicateResetMessage_String env r =
       Inr (Colorize env ''replicateResetMessage'' (''Replication reset started for '' @ URL r))"
  by (simp add: replicateResetMessage_String_def)

lemma sublist_decorated:
  assumes "\<And>tag s. sublist s (Colorize env tag s)" and "sublist x line"
  shows "sublist x (Colorize env tag line)"
proof -
  from assms(2) obtain ps ss where "line = ps @ x @ ss"
    by (auto simp: sublist_def)
  moreover from assms(1) [of line tag] obtain qs ts
    where "Colorize env tag line = qs @ line @ ts"
    by (auto simp: sublist_def)
  ultimately have "Colorize env tag line = (qs @ ps) @ x @ (ss @ ts)"
    by simp
  then show ?thesis
    unfolding sublist_def by blast
qed

lemma JSON_encodes:
  "replicateResetMessage_JSON env r =
     (case MarshalIndent env (r\<lparr>Status := ''success''\<rparr>) '''' '' '' of
        (bytes, None) \<Rightarrow> Inr bytes
      | (bytes, Some e) \<Rightarrow> Inl (Fatal (ProbeError e) ''Unable to marshal into JSON.''))"
  by (simp add: replicateResetMessage_JSON_def fatalIf_def NewError_def
        split: prod.splits option.splits)

subsection \<open>The small environment\<close>

lemma demoEnv_simps:
  "ParseDuration demoEnv = demoParseDuration" "Days demoEnv = Duration_Days"
  "newClient demoEnv = (\<lambda>url. None)" "ResetReplication demoEnv = demoResetReplication"
  "MarshalIndent demoEnv = demoMarshalIndent" "Colorize demoEnv = demoColorize"
  "globalJSON demoEnv = False"
  by (simp_all add: demoEnv_def)

lemma demoParseDuration_values:
  "demoParseDuration ''60d'' = (60 * Day, None)"
  "demoParseDuration ''2w'' = (14 * Day, None)"
  "demoParseDuration ''0d'' = (0, None)"
  "demoParseDuration ''60h'' = (60 * Hour, None)"
  "demoParseDuration ''60x'' = (0, Some ''unknown unit x in duration 60x'')"
  by (simp_all add: demoParseDuration_def isDigit_def unitOf_def digitsValue_def Week_def)

lemma Duration_Days_values:
  "time_Duration (Duration_Days (60 * Day)) = 1440"
  "time_Duration (Duration_Days (14 * Day)) = 336"
  "time_Duration (Duration_Days 0) = 0"
  "time_Duration (Duration_Days (60 * Hour)) = 60"
  by (simp_all add: whole_hours quo_def Day_def Hour_def)

lemma Day_nonzero: "Day \<noteq> 0"
  using Day_positive by simp

lemma demoColorize_decorates: "sublist s (demoColorize tag s)"
  unfolding sublist_def demoColorize_def
  by (rule exI [of _ "[CHR 0x1B] @ ''[32m''"], rule exI [of _ "[CHR 0x1B] @ ''[0m''"]) simp

section \<open>The claims\<close>

subsection \<open>The age filter\<close>

text \<open>
  C1. The claim: an \<open>--older-than\<close> value that parses to a zero-length duration (\<open>0d\<close>)
  ends the command with an input error and the remote operation is never called. The
  file does otherwise, and the theorem states what it does: for a well-formed
  invocation whose non-empty \<open>--older-than\<close> value parses without error to the duration
  zero, the command goes past the zero check of lines 128 to 130 and calls the remote
  operation, with the day count of the zero duration. The check hands \<open>fatalIf\<close> the
  wrapper of the parser's error, and there is none at that point.
\<close>

theorem zero_age_filter_reaches_the_remote_call:
  assumes "length (Args c) = 1" and "Context_String c ''remote-bucket'' \<noteq> ''''"
    and "newClient env (Get (Args c) 0) = None"
    and "flagSet c ''older-than'' = Some s" and "s \<noteq> ''''"
    and "ParseDuration env s = (0, None)"
  shows "trace (mainReplicateReset env c) =
           [CallNewClient (Get (Args c) 0), CallParseDuration s,
            CallResetReplication (time_Duration (Days env 0))
              (Context_String c ''remote-bucket'')]"
proof -
  have "olderThanOf env c = ([CallParseDuration s], Inr (time_Duration (Days env 0)))"
    using assms(4-6) by (rule olderThanOf_parsed)
  with assms(1-3) show ?thesis
    by (simp add: main_trace check_passes)
qed

theorem zero_age_filter_reaches_the_remote_call_witness:
  "mainReplicateReset demoEnv
     (demoContext [(''remote-bucket'', ''arn''), (''older-than'', ''0d'')]) =
   \<lparr>trace = [CallNewClient ''myminio/mybucket'', CallParseDuration ''0d'',
             CallResetReplication 0 ''arn''],
    outcome = Inr (demoColorize ''replicateResetMessage''
                ''Replication reset started for myminio/mybucket with ID abc123'')\<rparr>"
  using zero_age_filter_reaches_the_remote_call
    [of "demoContext [(''remote-bucket'', ''arn''), (''older-than'', ''0d'')]" demoEnv "''0d''"]
  by (simp add: mainReplicateReset_def checkReplicateResetSyntax_def fatalIf_def Trace_def
        olderThanOf_parsed printMsg_def String_single
        demoContext_def Context_String_def Get_def demoEnv_simps demoResetReplication_def
        demoParseDuration_values Duration_Days_values)

text \<open>
  C2. The claim: an \<open>--older-than\<close> value that fails to parse, or that parses but has
  none of the unit letters \<open>d\<close>, \<open>w\<close>, \<open>y\<close> (\<open>60h\<close>), ends the command with an input
  error and the remote operation is never called. The first half holds
  (\<open>unparsable_age_filter_is_fatal\<close>). For the second half the file does otherwise, and
  the theorem states what it does: for a well-formed invocation whose non-empty
  \<open>--older-than\<close> value parses without error and has no unit letter, the command goes
  past the check of lines 125 to 127 and calls the remote operation with the library's
  day count of the parsed duration, its fraction discarded. The check hands \<open>fatalIf\<close>
  the wrapper of the parser's error, and there is none when the parser succeeded.
\<close>

theorem age_filter_without_unit_reaches_the_remote_call:
  assumes "length (Args c) = 1" and "Context_String c ''remote-bucket'' \<noteq> ''''"
    and "newClient env (Get (Args c) 0) = None"
    and "flagSet c ''older-than'' = Some s" and "s \<noteq> ''''"
    and "ParseDuration env s = (d, None)" and "\<not> ContainsAny s ''dwy''"
  shows "trace (mainReplicateReset env c) =
           [CallNewClient (Get (Args c) 0), CallParseDuration s,
            CallResetReplication (time_Duration (Days env d))
              (Context_String c ''remote-bucket'')]"
proof -
  have "olderThanOf env c = ([CallParseDuration s], Inr (time_Duration (Days env d)))"
    using assms(4-6) by (rule olderThanOf_parsed)
  with assms(1-3) show ?thesis
    by (simp add: main_trace check_passes)
qed

theorem age_filter_without_unit_reaches_the_remote_call_witness:
  "\<not> ContainsAny ''60h'' ''dwy'' \<and>
   mainReplicateReset demoEnv
     (demoContext [(''remote-bucket'', ''arn''), (''older-than'', ''60h'')]) =
   \<lparr>trace = [CallNewClient ''myminio/mybucket'', CallParseDuration ''60h'',
             CallResetReplication 60 ''arn''],
    outcome = Inr (demoColorize ''replicateResetMessage''
                ''Replication reset started for myminio/mybucket with ID abc123'')\<rparr>"
  using age_filter_without_unit_reaches_the_remote_call
    [of "demoContext [(''remote-bucket'', ''arn''), (''older-than'', ''60h'')]" demoEnv
        "''60h''" "60 * Hour"]
  by (simp add: mainReplicateReset_def checkReplicateResetSyntax_def fatalIf_def Trace_def
        olderThanOf_parsed printMsg_def String_single ContainsAny_def
        demoContext_def Context_String_def Get_def demoEnv_simps demoResetReplication_def
        demoParseDuration_values Duration_Days_values)

text \<open>
  C3. The claim: an accepted \<open>--older-than\<close> value reaches the remote call as the parsed
  duration in whole days, 60 for \<open>60d\<close> and 14 for \<open>2w\<close>; the usage text of the flag
  (line 38) and the example of lines 67 and 68 speak of days too. The file does
  otherwise, and the theorem states what it does: line 131 passes on
  \<open>time.Duration(days.Days())\<close>, and with the day count of the duration library, which
  counts the whole hours of the duration, a well-formed invocation whose value is
  accepted (it parses without error, has a unit letter and is not zero) calls the
  remote operation once, with the parsed duration in whole hours: 1440 for \<open>60d\<close> and
  336 for \<open>2w\<close>.
\<close>

theorem accepted_age_filter_is_passed_in_whole_hours:
  assumes "length (Args c) = 1" and "Context_String c ''remote-bucket'' \<noteq> ''''"
    and "newClient env (Get (Args c) 0) = None"
    and "flagSet c ''older-than'' = Some s"
    and "ParseDuration env s = (d, None)" and "ContainsAny s ''dwy''" and "d \<noteq> 0"
    and "Days env = Duration_Days"
  shows "trace (mainReplicateReset env c) =
           [CallNewClient (Get (Args c) 0), CallParseDuration s,
            CallResetReplication (quo d Hour) (Context_String c ''remote-bucket'')]"
proof -
  from assms(6) have "s \<noteq> ''''"
    by (auto simp: ContainsAny_def)
  with assms(4,5)
  have "olderThanOf env c = ([CallParseDuration s], Inr (time_Duration (Days env d)))"
    by (simp add: olderThanOf_parsed)
  then have "olderThanOf env c = ([CallParseDuration s], Inr (quo d Hour))"
    by (simp add: assms(8) whole_hours)
  with assms(1-3) show ?thesis
    by (simp add: main_trace check_passes)
qed

theorem accepted_age_filter_is_passed_in_whole_hours_witness:
  "trace (mainReplicateReset demoEnv
            (demoContext [(''remote-bucket'', ''arn''), (''older-than'', ''60d'')])) =
     [CallNewClient ''myminio/mybucket'', CallParseDuration ''60d'',
      CallResetReplication 1440 ''arn'']
   \<and> trace (mainReplicateReset demoEnv
            (demoContext [(''remote-bucket'', ''arn''), (''older-than'', ''2w'')])) =
     [CallNewClient ''myminio/mybucket'', CallParseDuration ''2w'',
      CallResetReplication 336 ''arn'']
   \<and> quo (60 * Day) Day = 60 \<and> quo (14 * Day) Day = 14"
proof -
  let ?c60 = "demoContext [(''remote-bucket'', ''arn''), (''older-than'', ''60d'')]"
  let ?c2 = "demoContext [(''remote-bucket'', ''arn''), (''older-than'', ''2w'')]"
  have "trace (mainReplicateReset demoEnv ?c60) =
      [CallNewClient (Get (Args ?c60) 0), CallParseDuration ''60d'',
       CallResetReplication (quo (60 * Day) Hour) (Context_String ?c60 ''remote-bucket'')]"
    by (rule accepted_age_filter_is_passed_in_whole_hours)
      (simp_all add: demoContext_def Context_String_def demoEnv_simps
         demoParseDuration_values ContainsAny_def Day_nonzero)
  moreover
  have "trace (mainReplicateReset demoEnv ?c2) =
      [CallNewClient (Get (Args ?c2) 0), CallParseDuration ''2w'',
       CallResetReplication (quo (14 * Day) Hour) (Context_String ?c2 ''remote-bucket'')]"
    by (rule accepted_age_filter_is_passed_in_whole_hours)
      (simp_all add: demoContext_def Context_String_def demoEnv_simps
         demoParseDuration_values ContainsAny_def Day_nonzero)
  moreover have "quo (60 * Day) Hour = 1440" and "quo (14 * Day) Hour = 336"
    and "quo (60 * Day) Day = 60" and "quo (14 * Day) Day = 14"
    by (simp_all add: quo_def Day_def Hour_def)
  ultimately show ?thesis
    by (simp add: demoContext_def Context_String_def Get_def)
qed

subsection \<open>The argument check\<close>

text \<open>
  C4. An invocation whose number of positional arguments is not one (none, or two or
  more) ends with the usage exit, with exit code 1, and makes no call at all: the
  remote operation is never attempted.
\<close>

theorem wrong_argument_count_is_usage_exit:
  assumes "length (Args c) \<noteq> 1"
  shows "mainReplicateReset env c =
           \<lparr>trace = [], outcome = Inl (ShowCommandHelpAndExit ''reset'' 1)\<rparr>"
  using assms by (simp add: main_stopped_by_check check_wrong_count)

theorem wrong_argument_count_is_usage_exit_witness:
  "mainReplicateReset demoEnv \<lparr>Args = [], flagSet = Map.empty\<rparr> =
     \<lparr>trace = [], outcome = Inl (ShowCommandHelpAndExit ''reset'' 1)\<rparr>
   \<and> mainReplicateReset demoEnv
       \<lparr>Args = [''a/b'', ''c/d''], flagSet = [''remote-bucket'' \<mapsto> ''arn'']\<rparr> =
     \<lparr>trace = [], outcome = Inl (ShowCommandHelpAndExit ''reset'' 1)\<rparr>"
  using wrong_argument_count_is_usage_exit [of "\<lparr>Args = [], flagSet = Map.empty\<rparr>" demoEnv]
    wrong_argument_count_is_usage_exit
      [of "\<lparr>Args = [''a/b'', ''c/d''], flagSet = [''remote-bucket'' \<mapsto> ''arn'']\<rparr>" demoEnv]
  by simp

text \<open>
  C5, as amended. The claim as stated, that every invocation without a
  \<open>--remote-bucket\<close> value ends with the descriptive fatal error, fails where the number
  of positional arguments is wrong too: the argument count is checked first and the
  command takes the usage exit, as the run without any argument shows. What holds: an
  invocation in which \<open>--remote-bucket\<close> is absent or empty makes no call at all; with
  exactly one positional argument it ends with the fatal error
  \<open>--remote-bucket flag needs to be specified.\<close>, with any other number it ends with the
  usage exit.
\<close>

theorem missing_remote_bucket_stops_before_any_call:
  assumes "flagSet c ''remote-bucket'' = None \<or> flagSet c ''remote-bucket'' = Some ''''"
  shows "mainReplicateReset env c =
           \<lparr>trace = [],
            outcome = Inl (if length (Args c) = 1
                           then Fatal errDummy ''--remote-bucket flag needs to be specified.''
                           else ShowCommandHelpAndExit ''reset'' 1)\<rparr>"
proof -
  from assms have "Context_String c ''remote-bucket'' = ''''"
    by (auto simp: Context_String_def)
  then show ?thesis
    by (simp add: main_stopped_by_check check_missing_bucket check_wrong_count)
qed

theorem missing_remote_bucket_stops_before_any_call_witness:
  "mainReplicateReset demoEnv (demoContext []) =
     \<lparr>trace = [],
      outcome = Inl (Fatal errDummy ''--remote-bucket flag needs to be specified.'')\<rparr>
   \<and> mainReplicateReset demoEnv (demoContext [(''remote-bucket'', '''')]) =
     \<lparr>trace = [],
      outcome = Inl (Fatal errDummy ''--remote-bucket flag needs to be specified.'')\<rparr>"
  using missing_remote_bucket_stops_before_any_call [of "demoContext []" demoEnv]
    missing_remote_bucket_stops_before_any_call
      [of "demoContext [(''remote-bucket'', '''')]" demoEnv]
  by (simp add: demoContext_def)

theorem missing_remote_bucket_counterexample:
  "flagSet \<lparr>Args = [], flagSet = Map.empty\<rparr> ''remote-bucket'' = None
   \<and> mainReplicateReset demoEnv \<lparr>Args = [], flagSet = Map.empty\<rparr> =
       \<lparr>trace = [], outcome = Inl (ShowCommandHelpAndExit ''reset'' 1)\<rparr>
   \<and> outcome (mainReplicateReset demoEnv \<lparr>Args = [], flagSet = Map.empty\<rparr>) \<noteq>
       Inl (Fatal errDummy ''--remote-bucket flag needs to be specified.'')"
  by (simp add: main_stopped_by_check check_wrong_count)

subsection \<open>The output\<close>

text \<open>
  C6. With a console that only decorates the text it is given, the status line of a
  result with exactly one target contains the source URL and that target's reset
  identifier. For a result with any other number of targets the status line is the
  generic confirmation for the URL: it contains the URL and is built from the URL alone,
  so no identifier of a target goes into it, and two results for the same URL that both
  have no single target give the same line.
\<close>

theorem status_line_names_the_url_and_the_single_reset:
  assumes "\<And>tag s. sublist s (Colorize env tag s)"
  shows "(\<forall>t. Targets (ResyncTargetsInfo r) = [t] \<longrightarrow>
            (\<exists>out. replicateResetMessage_String env r = Inr out
               \<and> sublist (URL r) out \<and> sublist (ResetID t) out))
       \<and> (length (Targets (ResyncTargetsInfo r)) \<noteq> 1 \<longrightarrow>
            replicateResetMessage_String env r =
              Inr (Colorize env ''replicateResetMessage''
                     (''Replication reset started for '' @ URL r))
            \<and> sublist (URL r)
                (Colorize env ''replicateResetMessage''
                   (''Replication reset started for '' @ URL r))
            \<and> (\<forall>r'. URL r' = URL r \<and> length (Targets (ResyncTargetsInfo r')) \<noteq> 1 \<longrightarrow>
                  replicateResetMessage_String env r' = replicateResetMessage_String env r))"
proof (intro conjI allI impI)
  fix t
  assume one: "Targets (ResyncTargetsInfo r) = [t]"
  let ?line = "''Replication reset started for '' @ URL r @ '' with ID '' @ ResetID t"
  have "sublist (URL r) ?line"
    by (rule sublist_appendI)
  moreover have "sublist (ResetID t) ?line"
    using sublist_append_leftI
      [of "ResetID t" "''Replication reset started for '' @ URL r @ '' with ID ''"]
    by simp
  ultimately show "\<exists>out. replicateResetMessage_String env r = Inr out
      \<and> sublist (URL r) out \<and> sublist (ResetID t) out"
    using String_single [OF one, of env] assms by (auto intro: sublist_decorated)
next
  assume "length (Targets (ResyncTargetsInfo r)) \<noteq> 1"
  then show "replicateResetMessage_String env r =
      Inr (Colorize env ''replicateResetMessage'' (''Replication reset started for '' @ URL r))"
    by (rule String_generic)
next
  have "sublist (URL r) (''Replication reset started for '' @ URL r)"
    by (rule sublist_append_leftI)
  with assms show "sublist (URL r)
      (Colorize env ''replicateResetMessage'' (''Replication reset started for '' @ URL r))"
    by (rule sublist_decorated)
next
  fix r' :: replicateResetMessage
  assume "length (Targets (ResyncTargetsInfo r)) \<noteq> 1"
    and "URL r' = URL r \<and> length (Targets (ResyncTargetsInfo r')) \<noteq> 1"
  then show "replicateResetMessage_String env r' = replicateResetMessage_String env r"
    by (simp add: String_generic)
qed

theorem status_line_names_the_url_and_the_single_reset_witness:
  "(\<exists>out. replicateResetMessage_String demoEnv (demoMessage [''abc123'']) = Inr out
      \<and> sublist ''myminio/mybucket'' out \<and> sublist ''abc123'' out)
   \<and> replicateResetMessage_String demoEnv (demoMessage [''abc123'', ''def456'']) =
       Inr (demoColorize ''replicateResetMessage''
              ''Replication reset started for myminio/mybucket'')
   \<and> sublist ''myminio/mybucket''
        (demoColorize ''replicateResetMessage''
           ''Replication reset started for myminio/mybucket'')"
proof -
  have dec: "\<And>tag s. sublist s (Colorize demoEnv tag s)"
    by (simp add: demoEnv_simps demoColorize_decorates)
  note one = status_line_names_the_url_and_the_single_reset
    [OF dec, of "demoMessage [''abc123'']"]
  note two = status_line_names_the_url_and_the_single_reset
    [OF dec, of "demoMessage [''abc123'', ''def456'']"]
  from one have "\<exists>out. replicateResetMessage_String demoEnv (demoMessage [''abc123'']) = Inr out
      \<and> sublist ''myminio/mybucket'' out \<and> sublist ''abc123'' out"
    by (simp add: demoMessage_def)
  moreover from two
  have "replicateResetMessage_String demoEnv (demoMessage [''abc123'', ''def456'']) =
       Inr (demoColorize ''replicateResetMessage''
              ''Replication reset started for myminio/mybucket'')
   \<and> sublist ''myminio/mybucket''
        (demoColorize ''replicateResetMessage''
           ''Replication reset started for myminio/mybucket'')"
    by (simp add: demoMessage_def demoEnv_simps)
  ultimately show ?thesis by blast
qed

text \<open>
  C7. In the JSON mode, after a remote call that succeeded, what the command prints is
  the encoder's document for the message whose \<open>status\<close> is \<open>success\<close> and whose
  \<open>resyncInfo\<close> is the value the remote call returned, as it was returned; the text is
  printed as the encoder wrote it. Were the encoder to fail, the command would end with
  a fatal error instead. The encoder is the library's: that its text is JSON with the
  field names of the struct tags is its contract, and the theorem fixes the value it is
  given.
\<close>

theorem json_output_is_the_encoding_of_the_remote_result:
  assumes "length (Args c) = 1" and "Context_String c ''remote-bucket'' \<noteq> ''''"
    and "newClient env (Get (Args c) 0) = None"
    and "olderThanOf env c = (made, Inr d)"
    and "ResetReplication env (Get (Args c) 0) d (Context_String c ''remote-bucket'') =
           (rinfo, None)"
    and "globalJSON env"
  shows "outcome (mainReplicateReset env c) =
           (case MarshalIndent env
                   \<lparr>Op = ''status'', URL = Get (Args c) 0, ResyncTargetsInfo = rinfo,
                    Status = ''success'', TargetArn = ''''\<rparr> '''' '' '' of
              (bytes, None) \<Rightarrow> Inr bytes
            | (bytes, Some e) \<Rightarrow>
                Inl (Fatal (ProbeError e) ''Unable to marshal into JSON.''))"
proof -
  from assms(1,2) have "checkReplicateResetSyntax c = None"
    by (rule check_passes)
  from main_outcome [OF this assms(3,4,5)] assms(6) show ?thesis
    by (simp add: printMsg_def JSON_encodes)
qed

theorem json_output_is_the_encoding_of_the_remote_result_witness:
  "outcome (mainReplicateReset (demoEnv\<lparr>globalJSON := True\<rparr>)
              (demoContext [(''remote-bucket'', ''arn'')])) = Inr demoJSON"
  using json_output_is_the_encoding_of_the_remote_result
    [of "demoContext [(''remote-bucket'', ''arn'')]" "demoEnv\<lparr>globalJSON := True\<rparr>"
        "[]" 0 "\<lparr>Targets = [\<lparr>ResetID = ''abc123''\<rparr>]\<rparr>"]
  by (simp add: demoContext_def Context_String_def Get_def demoEnv_def olderThanOf_absent
        demoResetReplication_def demoMarshalIndent_def demoTarget_def demoJSON_def)

subsection \<open>No age filter\<close>

text \<open>
  C8. When \<open>--older-than\<close> is not given, every call of the remote operation that the
  command makes has the zero duration as its age filter and the value of
  \<open>--remote-bucket\<close> as its target identifier; and for a well-formed invocation (one
  positional argument, a target identifier, a client) the command makes that call, once.
\<close>

theorem absent_age_filter_means_zero_duration:
  assumes "flagSet c ''older-than'' = None"
  shows "(\<forall>d a. CallResetReplication d a \<in> set (trace (mainReplicateReset env c)) \<longrightarrow>
            d = 0 \<and> a = Context_String c ''remote-bucket'')
       \<and> (length (Args c) = 1 \<and> Context_String c ''remote-bucket'' \<noteq> ''''
            \<and> newClient env (Get (Args c) 0) = None \<longrightarrow>
          trace (mainReplicateReset env c) =
            [CallNewClient (Get (Args c) 0),
             CallResetReplication 0 (Context_String c ''remote-bucket'')])"
proof (intro conjI allI impI)
  have filter: "olderThanOf env c = ([], Inr 0)"
    using assms by (rule olderThanOf_absent)
  show "d = 0" and "a = Context_String c ''remote-bucket''"
    if "CallResetReplication d a \<in> set (trace (mainReplicateReset env c))" for d a
    using that filter
    by (simp_all add: mainReplicateReset_def Let_def split: option.splits prod.splits)
  show "trace (mainReplicateReset env c) =
      [CallNewClient (Get (Args c) 0),
       CallResetReplication 0 (Context_String c ''remote-bucket'')]"
    if "length (Args c) = 1 \<and> Context_String c ''remote-bucket'' \<noteq> ''''
        \<and> newClient env (Get (Args c) 0) = None"
    using that filter by (simp add: main_trace check_passes)
qed

theorem absent_age_filter_means_zero_duration_witness:
  "trace (mainReplicateReset demoEnv (demoContext [(''remote-bucket'', ''arn'')])) =
     [CallNewClient ''myminio/mybucket'', CallResetReplication 0 ''arn'']"
proof -
  let ?c = "demoContext [(''remote-bucket'', ''arn'')]"
  have given: "flagSet ?c ''older-than'' = None"
    by (simp add: demoContext_def)
  have valid: "length (Args ?c) = 1 \<and> Context_String ?c ''remote-bucket'' \<noteq> ''''
      \<and> newClient demoEnv (Get (Args ?c) 0) = None"
    by (simp add: demoContext_def Context_String_def demoEnv_simps)
  have url: "Get (Args ?c) 0 = ''myminio/mybucket''"
    and arn: "Context_String ?c ''remote-bucket'' = ''arn''"
    by (simp_all add: demoContext_def Context_String_def Get_def)
  from absent_age_filter_means_zero_duration [OF given, of demoEnv] valid
  have "trace (mainReplicateReset demoEnv ?c) =
      [CallNewClient (Get (Args ?c) 0),
       CallResetReplication 0 (Context_String ?c ''remote-bucket'')]"
    by blast
  then show ?thesis
    unfolding url arn .
qed

text \<open>
  C9. When \<open>--older-than\<close> is given with the empty string, the run is the run of the
  same command line without the flag: the same calls and the same outcome. The duration
  parser is not called, so the value raises no error; and for a well-formed invocation
  the remote operation is called with the zero duration.
\<close>

theorem empty_age_filter_is_no_age_filter:
  assumes "flagSet c ''older-than'' = Some ''''"
  shows "mainReplicateReset env c =
           mainReplicateReset env (c\<lparr>flagSet := (flagSet c)(''older-than'' := None)\<rparr>)
       \<and> (\<forall>s. CallParseDuration s \<notin> set (trace (mainReplicateReset env c)))
       \<and> (length (Args c) = 1 \<and> Context_String c ''remote-bucket'' \<noteq> ''''
            \<and> newClient env (Get (Args c) 0) = None \<longrightarrow>
          trace (mainReplicateReset env c) =
            [CallNewClient (Get (Args c) 0),
             CallResetReplication 0 (Context_String c ''remote-bucket'')])"
proof (intro conjI allI impI)
  let ?c' = "c\<lparr>flagSet := (flagSet c)(''older-than'' := None)\<rparr>"
  have filter: "olderThanOf env c = ([], Inr 0)"
    using assms by (rule olderThanOf_empty)
  have "olderThanOf env ?c' = ([], Inr 0)"
    by (simp add: olderThanOf_absent)
  with filter have "mainReplicateReset env ?c' = mainReplicateReset env c"
    by (intro main_by_parts) (simp_all add: Context_String_def)
  then show "mainReplicateReset env c = mainReplicateReset env ?c'"
    by simp
  show "CallParseDuration s \<notin> set (trace (mainReplicateReset env c))" for s
    using filter
    by (simp add: mainReplicateReset_def Let_def split: option.splits prod.splits)
  show "trace (mainReplicateReset env c) =
      [CallNewClient (Get (Args c) 0),
       CallResetReplication 0 (Context_String c ''remote-bucket'')]"
    if "length (Args c) = 1 \<and> Context_String c ''remote-bucket'' \<noteq> ''''
        \<and> newClient env (Get (Args c) 0) = None"
    using that filter by (simp add: main_trace check_passes)
qed

theorem empty_age_filter_is_no_age_filter_witness:
  "mainReplicateReset demoEnv
     (demoContext [(''remote-bucket'', ''arn''), (''older-than'', '''')]) =
   mainReplicateReset demoEnv (demoContext [(''remote-bucket'', ''arn'')])
   \<and> trace (mainReplicateReset demoEnv
        (demoContext [(''remote-bucket'', ''arn''), (''older-than'', '''')])) =
      [CallNewClient ''myminio/mybucket'', CallResetReplication 0 ''arn'']"
proof -
  let ?c = "demoContext [(''remote-bucket'', ''arn''), (''older-than'', '''')]"
  have same: "?c\<lparr>flagSet := (flagSet ?c)(''older-than'' := None)\<rparr> =
      demoContext [(''remote-bucket'', ''arn'')]"
    by (simp add: demoContext_def fun_eq_iff)
  have given: "flagSet ?c ''older-than'' = Some ''''"
    by (simp add: demoContext_def)
  have valid: "length (Args ?c) = 1 \<and> Context_String ?c ''remote-bucket'' \<noteq> ''''
      \<and> newClient demoEnv (Get (Args ?c) 0) = None"
    by (simp add: demoContext_def Context_String_def demoEnv_simps)
  have url: "Get (Args ?c) 0 = ''myminio/mybucket''"
    and arn: "Context_String ?c ''remote-bucket'' = ''arn''"
    by (simp_all add: demoContext_def Context_String_def Get_def)
  note inst = empty_age_filter_is_no_age_filter [OF given, of demoEnv]
  from inst have "mainReplicateReset demoEnv ?c =
      mainReplicateReset demoEnv (demoContext [(''remote-bucket'', ''arn'')])"
    unfolding same by (rule conjunct1)
  moreover from inst valid have "trace (mainReplicateReset demoEnv ?c) =
      [CallNewClient (Get (Args ?c) 0),
       CallResetReplication 0 (Context_String ?c ''remote-bucket'')]"
    by blast
  then have "trace (mainReplicateReset demoEnv ?c) =
      [CallNewClient ''myminio/mybucket'', CallResetReplication 0 ''arn'']"
    unfolding url arn .
  ultimately show ?thesis
    by (rule conjI)
qed

subsection \<open>The status line is total\<close>

text \<open>
  C10. The status line never reads past the end of the target list: for every message
  it returns a line and not the panic of an index out of range, since it reads the
  first target only where the list has exactly one; and for an empty target list the
  line is the generic confirmation.
\<close>

theorem status_line_never_reads_past_the_targets:
  "(\<exists>out. replicateResetMessage_String env r = Inr out)
   \<and> (Targets (ResyncTargetsInfo r) = [] \<longrightarrow>
        replicateResetMessage_String env r =
          Inr (Colorize env ''replicateResetMessage''
                 (''Replication reset started for '' @ URL r)))"
proof (cases "length (Targets (ResyncTargetsInfo r)) = 1")
  case True
  then obtain t where "Targets (ResyncTargetsInfo r) = [t]"
    by (auto simp: length_Suc_conv)
  then show ?thesis
    by (simp add: String_single)
next
  case False
  then show ?thesis
    by (simp add: String_generic)
qed

theorem status_line_never_reads_past_the_targets_witness:
  "(\<exists>out. replicateResetMessage_String demoEnv (demoMessage []) = Inr out)
   \<and> replicateResetMessage_String demoEnv (demoMessage []) =
        Inr (demoColorize ''replicateResetMessage''
               ''Replication reset started for myminio/mybucket'')"
  using status_line_never_reads_past_the_targets [of demoEnv "demoMessage []"]
  by (simp add: demoMessage_def demoEnv_simps)

end
